theory Spec2Isabelle
  imports Main "HOL-Library.Word" "HOL-Library.AList" "HOL-Library.Stream"
    "HOL-Library.Signed_Division"
begin

section \<open>Data model of the KMS client responses\<close>

text \<open>
  The Go sources are modelled for a 64-bit target: \<^verbatim>\<open>int\<close> and \<^verbatim>\<open>uint\<close> are
  64-bit words (\<open>sint\<close> gives the value of a signed one, \<open>unat\<close> of an unsigned
  one), \<^verbatim>\<open>time.Duration\<close> is an \<^verbatim>\<open>int64\<close> of nanoseconds, \<^verbatim>\<open>[]byte\<close> is a
  list of 8-bit words. A conversion \<^verbatim>\<open>uint32(x)\<close> keeps the low 32 bits and
  \<^verbatim>\<open>int(x)\<close> of a \<^verbatim>\<open>uint32\<close> extends with zeros: both are \<open>ucast\<close>.

  A Go map is an association list with distinct keys. The order of the list is
  the order in which a \<^verbatim>\<open>range\<close> loop visits the entries (Go leaves it
  unspecified, so it is part of the input), and \<^verbatim>\<open>m[k] = v\<close> is
  \<open>AList.update k v m\<close>. Two maps are the same map when \<open>map_of\<close> agrees.

  The methods are modelled twice. First on values: a receiver, a message and the
  entries of a map are the structs that non-nil pointers point to. Then on
  pointers, where \<open>None\<close> is the nil pointer and a nil dereference is a panic:
  see the section on nil pointers.
\<close>

type_synonym go_int = "64 word"
type_synonym go_uint = "64 word"
type_synonym int64 = "64 word"
type_synonym uint64 = "64 word"
type_synonym uint32 = "32 word"
type_synonym duration = "64 word"
type_synonym bytes = "8 word list"

text \<open>
  Go's \<^verbatim>\<open>error\<close> results. \<open>Error code msg\<close> is \<^verbatim>\<open>kms.Error{code, msg}\<close>; \<open>EOF\<close>
  and \<open>ErrUnexpectedEOF\<close> are the two errors of \<^verbatim>\<open>io.ReadFull\<close>; \<open>UnmarshalError\<close>
  stands for whatever \<^verbatim>\<open>proto.Unmarshal\<close> or \<^verbatim>\<open>protojson.Unmarshal\<close> report.
  A returned \<^verbatim>\<open>nil\<close> is \<open>None :: error option\<close>.
\<close>

datatype error = Error nat string | EOF | ErrUnexpectedEOF | UnmarshalError string

record NodeStatusResponse =
  Version :: string
  APIVersion :: string
  Endpoint :: string
  Role :: string
  Commit :: uint64
  Nodes :: "(go_int \<times> string) list"
  ID :: go_int
  LeaderID :: go_int
  LastHeartbeat :: duration
  HeartbeatInterval :: duration
  ElectionTimeout :: duration
  UpTime :: duration
  OS :: string
  CPUArch :: string
  CPUs :: go_uint
  UsableCPUs :: go_uint
  HeapMemInUse :: uint64
  StackMemInUse :: uint64

text \<open>
  The protobuf message \<^verbatim>\<open>pb.NodeStatusResponse\<close>, with the fields that
  \<^verbatim>\<open>response.go\<close> reads and writes. Their types are the ones of the conversions
  in \<^verbatim>\<open>response.go\<close> and of the status message of the \<^verbatim>\<open>.proto\<close> file
  (\<^verbatim>\<open>uint32 ID\<close>, \<^verbatim>\<open>map<uint32,string> Nodes\<close>, \<^verbatim>\<open>sint64 LeaderID\<close>,
  \<^verbatim>\<open>uint32 CPUs\<close>). The three durations are pointers to a protobuf duration
  message, of type \<open>'d\<close>; \<open>None\<close> is the nil pointer.
\<close>

record 'd pb_NodeStatusResponse =
  pb_Version :: string
  pb_APIVersion :: string
  pb_Addr :: string
  pb_Role :: string
  pb_Commit :: uint64
  pb_Nodes :: "(uint32 \<times> string) list"
  pb_ID :: uint32
  pb_LeaderID :: int64
  pb_LastHeartbeat :: "'d option"
  pb_HeartbeatInterval :: "'d option"
  pb_ElectionTimeout :: "'d option"
  pb_OS :: string
  pb_Arch :: string
  pb_CPUs :: uint32
  pb_UsableCPUs :: uint32
  pb_HeapMemInUse :: uint64
  pb_StackMemInUse :: uint64

text \<open>The zero values that \<^verbatim>\<open>new(NodeStatusResponse)\<close> and
  \<^verbatim>\<open>new(pb.NodeStatusResponse)\<close> allocate.\<close>

definition new_NodeStatusResponse :: NodeStatusResponse where
  "new_NodeStatusResponse =
     \<lparr>Version = [], APIVersion = [], Endpoint = [], Role = [], Commit = 0,
      Nodes = [], ID = 0, LeaderID = 0, LastHeartbeat = 0, HeartbeatInterval = 0,
      ElectionTimeout = 0, UpTime = 0, OS = [], CPUArch = [], CPUs = 0,
      UsableCPUs = 0, HeapMemInUse = 0, StackMemInUse = 0\<rparr>"

definition new_pb_NodeStatusResponse :: "'d pb_NodeStatusResponse" where
  "new_pb_NodeStatusResponse =
     \<lparr>pb_Version = [], pb_APIVersion = [], pb_Addr = [], pb_Role = [], pb_Commit = 0,
      pb_Nodes = [], pb_ID = 0, pb_LeaderID = 0, pb_LastHeartbeat = None,
      pb_HeartbeatInterval = None, pb_ElectionTimeout = None, pb_OS = [],
      pb_Arch = [], pb_CPUs = 0, pb_UsableCPUs = 0, pb_HeapMemInUse = 0,
      pb_StackMemInUse = 0\<rparr>"

record StatusResponse =
  NodesUp :: "(go_int \<times> NodeStatusResponse) list"
  NodesDown :: "(go_int \<times> string) list"

record 'd pb_StatusResponse =
  pb_NodesUp :: "(uint32 \<times> 'd pb_NodeStatusResponse) list"
  pb_NodesDown :: "(uint32 \<times> string) list"

record EncryptResponse =
  enc_Version :: go_int
  enc_Ciphertext :: bytes

record pb_EncryptResponse =
  pb_enc_Version :: uint32
  pb_enc_Ciphertext :: bytes

record DecryptResponse =
  dec_Plaintext :: bytes

record pb_DecryptResponse =
  pb_dec_Plaintext :: bytes

record GenerateKeyResponse =
  gen_Version :: go_int
  gen_Plaintext :: bytes
  gen_Ciphertext :: bytes

record pb_GenerateKeyResponse =
  pb_gen_Version :: uint32
  pb_gen_Plaintext :: bytes
  pb_gen_Ciphertext :: bytes

section \<open>The conversions of response.go\<close>

text \<open>
  The loop \<^verbatim>\<open>for k, x := range src { dst[conv(k)] = x }\<close>, which copies a map
  under a conversion of its keys. It occurs four times in \<^verbatim>\<open>response.go\<close>.
\<close>

fun range_put :: "('k \<Rightarrow> 'j) \<Rightarrow> ('k \<times> 'v) list \<Rightarrow> ('j \<times> 'v) list \<Rightarrow> ('j \<times> 'v) list" where
  "range_put conv [] dst = dst"
| "range_put conv ((k, x) # src) dst = range_put conv src (AList.update (conv k) x dst)"

text \<open>
  Every method writes through its pointer argument and returns an \<^verbatim>\<open>error\<close>:
  the model takes the value written to and returns the error with the new value.
  \<^verbatim>\<open>pb.Duration\<close> and \<^verbatim>\<open>AsDuration\<close> belong to the protobuf packages; the
  methods take them as the parameters \<open>Duration\<close> and \<open>AsDuration\<close>.
\<close>

definition NodeStatusResponse_MarshalPB ::
  "(duration \<Rightarrow> 'd option) \<Rightarrow> NodeStatusResponse \<Rightarrow> 'd pb_NodeStatusResponse
     \<Rightarrow> error option \<times> 'd pb_NodeStatusResponse" where
  "NodeStatusResponse_MarshalPB Duration s v =
     (None,
      v\<lparr>pb_Version := Version s,
        pb_APIVersion := APIVersion s,
        pb_Addr := Endpoint s,
        pb_Role := Role s,
        pb_Commit := Commit s,
        pb_Nodes := range_put ucast (Nodes s) [],
        pb_ID := ucast (ID s),
        pb_LeaderID := LeaderID s,
        pb_LastHeartbeat := Duration (LastHeartbeat s),
        pb_HeartbeatInterval := Duration (HeartbeatInterval s),
        pb_ElectionTimeout := Duration (ElectionTimeout s),
        pb_OS := OS s,
        pb_Arch := CPUArch s,
        pb_CPUs := ucast (CPUs s),
        pb_UsableCPUs := ucast (UsableCPUs s),
        pb_HeapMemInUse := HeapMemInUse s,
        pb_StackMemInUse := StackMemInUse s\<rparr>)"

definition NodeStatusResponse_UnmarshalPB ::
  "('d option \<Rightarrow> duration) \<Rightarrow> 'd pb_NodeStatusResponse \<Rightarrow> NodeStatusResponse
     \<Rightarrow> error option \<times> NodeStatusResponse" where
  "NodeStatusResponse_UnmarshalPB AsDuration v s =
     (None,
      s\<lparr>Version := pb_Version v,
        APIVersion := pb_APIVersion v,
        Endpoint := pb_Addr v,
        Role := pb_Role v,
        Commit := pb_Commit v,
        Nodes := range_put ucast (pb_Nodes v) [],
        ID := ucast (pb_ID v),
        LeaderID := pb_LeaderID v,
        LastHeartbeat := AsDuration (pb_LastHeartbeat v),
        HeartbeatInterval := AsDuration (pb_HeartbeatInterval v),
        ElectionTimeout := AsDuration (pb_ElectionTimeout v),
        OS := pb_OS v,
        CPUArch := pb_Arch v,
        CPUs := ucast (pb_CPUs v),
        UsableCPUs := ucast (pb_UsableCPUs v),
        HeapMemInUse := pb_HeapMemInUse v,
        StackMemInUse := pb_StackMemInUse v\<rparr>)"

text \<open>
  \<^verbatim>\<open>StatusResponse.UnmarshalPB\<close> on a message whose nodes are non-nil
  pointers. Its first loop converts every node into a fresh value and returns
  early, with the map as filled so far, when a conversion reports an error.
  (\<^verbatim>\<open>StatusResponse.MarshalPB\<close> is modelled in the section on nil pointers.)
\<close>

fun UnmarshalPB_NodesUp ::
  "('d option \<Rightarrow> duration) \<Rightarrow> (uint32 \<times> 'd pb_NodeStatusResponse) list
     \<Rightarrow> (go_int \<times> NodeStatusResponse) list
     \<Rightarrow> error option \<times> (go_int \<times> NodeStatusResponse) list" where
  "UnmarshalPB_NodesUp AsDuration [] dst = (None, dst)"
| "UnmarshalPB_NodesUp AsDuration ((k, resp) # src) dst =
     (case NodeStatusResponse_UnmarshalPB AsDuration resp new_NodeStatusResponse of
        (Some err, stat) \<Rightarrow> (Some err, dst)
      | (None, stat) \<Rightarrow> UnmarshalPB_NodesUp AsDuration src (AList.update (ucast k) stat dst))"

definition StatusResponse_UnmarshalPB ::
  "('d option \<Rightarrow> duration) \<Rightarrow> 'd pb_StatusResponse \<Rightarrow> StatusResponse
     \<Rightarrow> error option \<times> StatusResponse" where
  "StatusResponse_UnmarshalPB AsDuration v s =
     (case UnmarshalPB_NodesUp AsDuration (pb_NodesUp v) [] of
        (Some err, up) \<Rightarrow> (Some err, s\<lparr>NodesUp := up\<rparr>)
      | (None, up) \<Rightarrow>
          (None, s\<lparr>NodesUp := up, NodesDown := range_put ucast (pb_NodesDown v) []\<rparr>))"

definition EncryptResponse_MarshalPB ::
  "EncryptResponse \<Rightarrow> pb_EncryptResponse \<Rightarrow> error option \<times> pb_EncryptResponse" where
  "EncryptResponse_MarshalPB r v =
     (None, v\<lparr>pb_enc_Version := ucast (enc_Version r), pb_enc_Ciphertext := enc_Ciphertext r\<rparr>)"

definition EncryptResponse_UnmarshalPB ::
  "pb_EncryptResponse \<Rightarrow> EncryptResponse \<Rightarrow> error option \<times> EncryptResponse" where
  "EncryptResponse_UnmarshalPB v r =
     (None, r\<lparr>enc_Version := ucast (pb_enc_Version v), enc_Ciphertext := pb_enc_Ciphertext v\<rparr>)"

definition DecryptResponse_MarshalPB ::
  "DecryptResponse \<Rightarrow> pb_DecryptResponse \<Rightarrow> error option \<times> pb_DecryptResponse" where
  "DecryptResponse_MarshalPB r v = (None, v\<lparr>pb_dec_Plaintext := dec_Plaintext r\<rparr>)"

definition DecryptResponse_UnmarshalPB ::
  "pb_DecryptResponse \<Rightarrow> DecryptResponse \<Rightarrow> error option \<times> DecryptResponse" where
  "DecryptResponse_UnmarshalPB v r = (None, r\<lparr>dec_Plaintext := pb_dec_Plaintext v\<rparr>)"

definition GenerateKeyResponse_MarshalPB ::
  "GenerateKeyResponse \<Rightarrow> pb_GenerateKeyResponse \<Rightarrow> error option \<times> pb_GenerateKeyResponse" where
  "GenerateKeyResponse_MarshalPB r v =
     (None,
      v\<lparr>pb_gen_Version := ucast (gen_Version r),
        pb_gen_Plaintext := gen_Plaintext r,
        pb_gen_Ciphertext := gen_Ciphertext r\<rparr>)"

definition GenerateKeyResponse_UnmarshalPB ::
  "pb_GenerateKeyResponse \<Rightarrow> GenerateKeyResponse \<Rightarrow> error option \<times> GenerateKeyResponse" where
  "GenerateKeyResponse_UnmarshalPB v r =
     (None,
      r\<lparr>gen_Version := ucast (pb_gen_Version v),
        gen_Plaintext := pb_gen_Plaintext v,
        gen_Ciphertext := pb_gen_Ciphertext v\<rparr>)"

section \<open>Reading a response\<close>

text \<open>
  What \<^verbatim>\<open>readResponse\<close> uses of an \<^verbatim>\<open>http.Response\<close>: the content length
  (an \<^verbatim>\<open>int64\<close>), the value of the content type header, and the body, a reader
  that delivers the bytes of the list and then reports the end of the stream.
\<close>

record http_Response =
  ContentLength :: int64
  ContentType :: string
  Body :: bytes

text \<open>
  \<^verbatim>\<open>io.ReadFull(r.Body, buf)\<close> for a buffer of \<open>n\<close> bytes: it fills the buffer and
  leaves the rest of the body unread, or fails with \<^verbatim>\<open>io.EOF\<close> when the body
  delivers no byte at all and with \<^verbatim>\<open>io.ErrUnexpectedEOF\<close> when it ends before
  the buffer is full. The result is the buffer or the error, with what is left
  of the body.
\<close>

definition ReadFull :: "bytes \<Rightarrow> nat \<Rightarrow> (error + bytes) \<times> bytes" where
  "ReadFull body n =
     (if n \<le> length body then (Inr (take n body), drop n body)
      else if body = [] then (Inl EOF, [])
      else (Inl ErrUnexpectedEOF, []))"

text \<open>
  \<^verbatim>\<open>readResponse\<close> is generic in the message type \<open>'m\<close> and in the type \<open>'t\<close>
  it fills. The decoders \<^verbatim>\<open>proto.Unmarshal\<close> and \<^verbatim>\<open>protojson.Unmarshal\<close> (into
  a fresh message), the constant \<^verbatim>\<open>headers.ContentTypeBinary\<close> and the method
  \<^verbatim>\<open>UnmarshalPB\<close> of \<open>'t\<close> are parameters. The result is the returned error,
  the response with its body as far as it was read, and the value of \<open>v\<close>.
\<close>

definition readResponse ::
  "string \<Rightarrow> (bytes \<Rightarrow> error + 'm) \<Rightarrow> (bytes \<Rightarrow> error + 'm)
     \<Rightarrow> ('m \<Rightarrow> 't \<Rightarrow> error option \<times> 't) \<Rightarrow> http_Response \<Rightarrow> 't
     \<Rightarrow> error option \<times> http_Response \<times> 't" where
  "readResponse ContentTypeBinary proto_Unmarshal protojson_Unmarshal UnmarshalPB r v =
     (if sint (ContentLength r) < 0
      then (Some (Error 411 ''request content length is negative''), r, v)
      else
        (case ReadFull (Body r) (nat (sint (ContentLength r))) of
           (Inl err, rest) \<Rightarrow> (Some err, r\<lparr>Body := rest\<rparr>, v)
         | (Inr buf, rest) \<Rightarrow>
             (case (if ContentType r = ContentTypeBinary
                    then proto_Unmarshal buf else protojson_Unmarshal buf) of
                Inl err \<Rightarrow> (Some err, r\<lparr>Body := rest\<rparr>, v)
              | Inr m \<Rightarrow>
                  (case UnmarshalPB m v of (err, v') \<Rightarrow> (err, r\<lparr>Body := rest\<rparr>, v')))))"

section \<open>The request messages\<close>

text \<open>
  The generated request types, with the \<^verbatim>\<open>protobuf\<close> key of the struct tag of
  every field, as written in the generated file: kind, field number, label,
  \<^verbatim>\<open>name=\<close>, \<^verbatim>\<open>json=\<close> and syntax, separated by commas. The \<^verbatim>\<open>json=\<close> part is
  the \<^verbatim>\<open>json_name\<close> option of the field in the \<^verbatim>\<open>.proto\<close> file, the member name
  that the textual encoding uses for the field.
\<close>

definition EditClusterRequest_tags :: "(string \<times> string) list" where
  "EditClusterRequest_tags =
     [(''RemoveIDs'', ''varint,1,rep,packed,name=RemoveIDs,json=remove,proto3'')]"

definition EncryptRequest_tags :: "(string \<times> string) list" where
  "EncryptRequest_tags =
     [(''Version'', ''varint,1,opt,name=Version,json=version,proto3''),
      (''Plaintext'', ''bytes,2,opt,name=Plaintext,json=plaintext,proto3''),
      (''AssociatedData'', ''bytes,3,opt,name=AssociatedData,json=associated_data,proto3'')]"

definition GenerateKeyRequest_tags :: "(string \<times> string) list" where
  "GenerateKeyRequest_tags =
     [(''Version'', ''varint,1,opt,name=Version,json=version,proto3''),
      (''AssociatedData'', ''bytes,2,opt,name=AssociatedData,json=associated_data,proto3''),
      (''Length'', ''varint,3,opt,name=Length,json=length,proto3,oneof'')]"

definition DecryptRequest_tags :: "(string \<times> string) list" where
  "DecryptRequest_tags =
     [(''Version'', ''varint,1,opt,name=Version,json=version,proto3''),
      (''Ciphertext'', ''bytes,2,opt,name=Ciphertext,json=ciphertext,proto3''),
      (''AssociatedData'', ''bytes,3,opt,name=AssociatedData,json=associated_data,proto3'')]"

text \<open>The parts of a tag between its commas.\<close>

fun tag_parts :: "string \<Rightarrow> string list" where
  "tag_parts [] = [[]]"
| "tag_parts (c # cs) =
     (if c = CHR '','' then [] # tag_parts cs
      else (case tag_parts cs of p # ps \<Rightarrow> (c # p) # ps | [] \<Rightarrow> [[c]]))"

text \<open>The \<^verbatim>\<open>json=\<close> part of a tag, if it has one.\<close>

definition tag_json :: "string \<Rightarrow> string option" where
  "tag_json tag =
     (case filter (\<lambda>p. take 5 p = ''json='') (tag_parts tag) of
        [] \<Rightarrow> None
      | p # ps \<Rightarrow> Some (drop 5 p))"

text \<open>The label of the Go field \<open>field\<close> of a message in the textual encoding.\<close>

definition JSONName :: "(string \<times> string) list \<Rightarrow> string \<Rightarrow> string option" where
  "JSONName tags field = (case map_of tags field of None \<Rightarrow> None | Some tag \<Rightarrow> tag_json tag)"

text \<open>A lowercase snake-case label: lowercase letters, digits and underscores only.\<close>

definition snake_case :: "string \<Rightarrow> bool" where
  "snake_case l =
     (l \<noteq> [] \<and> list_all (\<lambda>c. c \<in> set ''abcdefghijklmnopqrstuvwxyz0123456789_'') l)"

record GenerateKeyRequest =
  greq_Version :: uint32
  greq_AssociatedData :: bytes
  greq_Length :: "uint32 option"

text \<open>
  \<^verbatim>\<open>GetLength\<close> on a pointer to a request: \<open>None\<close> is the nil pointer, and the
  optional field \<^verbatim>\<open>Length *uint32\<close> is \<open>None\<close> when it is absent.
\<close>

definition GetLength :: "GenerateKeyRequest option \<Rightarrow> uint32" where
  "GetLength x =
     (case x of
        Some req \<Rightarrow> (case greq_Length req of Some l \<Rightarrow> l | None \<Rightarrow> 0)
      | None \<Rightarrow> 0)"

datatype keygen_error = LengthOutOfRange

text \<open>
  Modelled from the spec: the server's handling of the length of a GenerateKey
  request, which is not part of the client sources. The spec gives the length
  a default of 32 bytes and a hard upper bound of 1024 bytes, normalises a
  requested length of 0 to the default, and rejects a length above the bound
  before any key material is touched. The request is read with the generated
  accessor \<open>GetLength\<close>; the key material is taken from a stream of random bytes,
  and the result is the plaintext key or the rejection, with the stream as it
  is left.
\<close>

definition GenerateKey_plaintext ::
  "GenerateKeyRequest option \<Rightarrow> 8 word stream \<Rightarrow> (keygen_error + bytes) \<times> 8 word stream" where
  "GenerateKey_plaintext req rng =
     (let l = unat (GetLength req) in
      if l > 1024 then (Inl LengthOutOfRange, rng)
      else
        (let n = (if l = 0 then 32 else l) in (Inr (stake n rng), sdrop n rng)))"

text \<open>
  A node status converted to its protobuf message and back: \<^verbatim>\<open>MarshalPB\<close>
  into a fresh message, then \<^verbatim>\<open>UnmarshalPB\<close> of that message into a fresh
  \<^verbatim>\<open>NodeStatusResponse\<close>.
\<close>

definition NodeStatusResponse_roundtrip ::
  "(duration \<Rightarrow> 'd option) \<Rightarrow> ('d option \<Rightarrow> duration) \<Rightarrow> NodeStatusResponse
     \<Rightarrow> NodeStatusResponse" where
  "NodeStatusResponse_roundtrip Duration AsDuration x =
     snd (NodeStatusResponse_UnmarshalPB AsDuration
            (snd (NodeStatusResponse_MarshalPB Duration x new_pb_NodeStatusResponse))
            new_NodeStatusResponse)"

section \<open>Nil pointers\<close>

text \<open>
  The outcome of a call: it returns an error (or nil), or it panics with a nil
  pointer dereference.
\<close>

datatype result = Returns "error option" | Panics

text \<open>
  A call of one of the methods above through its two pointers, in the order of
  the arguments of the model; the second is the one written through. Every
  method reads a field of its receiver and writes a field of its argument in
  its first statement (\<^verbatim>\<open>v.Version = s.Version\<close>), so a nil pointer on either
  side panics before anything is written.
\<close>

definition call_method ::
  "('a \<Rightarrow> 'b \<Rightarrow> error option \<times> 'b) \<Rightarrow> 'a option \<Rightarrow> 'b option \<Rightarrow> result \<times> 'b option" where
  "call_method body p q =
     (case p of
        None \<Rightarrow> (Panics, q)
      | Some a \<Rightarrow>
          (case q of
             None \<Rightarrow> (Panics, q)
           | Some b \<Rightarrow> (case body a b of (err, b') \<Rightarrow> (Returns err, Some b'))))"

text \<open>
  The cluster status and its message with the pointers that their maps hold:
  \<^verbatim>\<open>map[int]*NodeStatusResponse\<close> and \<^verbatim>\<open>map[uint32]*pb.NodeStatusResponse\<close>.
\<close>

record StatusResponse_ptrs =
  ptrs_NodesUp :: "(go_int \<times> NodeStatusResponse option) list"
  ptrs_NodesDown :: "(go_int \<times> string) list"

record 'd pb_StatusResponse_ptrs =
  pb_ptrs_NodesUp :: "(uint32 \<times> 'd pb_NodeStatusResponse option) list"
  pb_ptrs_NodesDown :: "(uint32 \<times> string) list"

text \<open>
  The first loop of \<^verbatim>\<open>StatusResponse.MarshalPB\<close>: \<^verbatim>\<open>resp.MarshalPB(stat)\<close> for
  every entry \<^verbatim>\<open>resp\<close> and a fresh message \<^verbatim>\<open>stat\<close>. It panics at a nil entry
  and returns early when a conversion reports an error, in both cases with the
  map as filled so far.
\<close>

fun MarshalPB_NodesUp_ptrs ::
  "(duration \<Rightarrow> 'd option) \<Rightarrow> (go_int \<times> NodeStatusResponse option) list
     \<Rightarrow> (uint32 \<times> 'd pb_NodeStatusResponse option) list
     \<Rightarrow> result \<times> (uint32 \<times> 'd pb_NodeStatusResponse option) list" where
  "MarshalPB_NodesUp_ptrs Duration [] dst = (Returns None, dst)"
| "MarshalPB_NodesUp_ptrs Duration ((k, resp) # src) dst =
     (case call_method (NodeStatusResponse_MarshalPB Duration) resp
             (Some new_pb_NodeStatusResponse) of
        (Panics, stat) \<Rightarrow> (Panics, dst)
      | (Returns (Some err), stat) \<Rightarrow> (Returns (Some err), dst)
      | (Returns None, stat) \<Rightarrow>
          MarshalPB_NodesUp_ptrs Duration src (AList.update (ucast k) stat dst))"

text \<open>
  \<^verbatim>\<open>StatusResponse.MarshalPB\<close> through the pointers \<open>p\<close> (the receiver) and \<open>q\<close>
  (the message). The result is the outcome of the call and the message as it
  stands when the call ends.
\<close>

definition StatusResponse_MarshalPB_ptrs ::
  "(duration \<Rightarrow> 'd option) \<Rightarrow> StatusResponse_ptrs option \<Rightarrow> 'd pb_StatusResponse_ptrs option
     \<Rightarrow> result \<times> 'd pb_StatusResponse_ptrs option" where
  "StatusResponse_MarshalPB_ptrs Duration p q =
     (case p of
        None \<Rightarrow> (Panics, q)
      | Some s \<Rightarrow>
          (case q of
             None \<Rightarrow> (Panics, q)
           | Some v \<Rightarrow>
               (case MarshalPB_NodesUp_ptrs Duration (ptrs_NodesUp s) [] of
                  (Panics, up) \<Rightarrow> (Panics, Some (v\<lparr>pb_ptrs_NodesUp := up\<rparr>))
                | (Returns (Some err), up) \<Rightarrow>
                    (Returns (Some err), Some (v\<lparr>pb_ptrs_NodesUp := up\<rparr>))
                | (Returns None, up) \<Rightarrow>
                    (Returns None,
                     Some (v\<lparr>pb_ptrs_NodesUp := up,
                             pb_ptrs_NodesDown := range_put ucast (ptrs_NodesDown s) []\<rparr>)))))"

fun UnmarshalPB_NodesUp_ptrs ::
  "('d option \<Rightarrow> duration) \<Rightarrow> (uint32 \<times> 'd pb_NodeStatusResponse option) list
     \<Rightarrow> (go_int \<times> NodeStatusResponse option) list
     \<Rightarrow> result \<times> (go_int \<times> NodeStatusResponse option) list" where
  "UnmarshalPB_NodesUp_ptrs AsDuration [] dst = (Returns None, dst)"
| "UnmarshalPB_NodesUp_ptrs AsDuration ((k, resp) # src) dst =
     (case call_method (NodeStatusResponse_UnmarshalPB AsDuration) resp
             (Some new_NodeStatusResponse) of
        (Panics, stat) \<Rightarrow> (Panics, dst)
      | (Returns (Some err), stat) \<Rightarrow> (Returns (Some err), dst)
      | (Returns None, stat) \<Rightarrow>
          UnmarshalPB_NodesUp_ptrs AsDuration src (AList.update (ucast k) stat dst))"

definition StatusResponse_UnmarshalPB_ptrs ::
  "('d option \<Rightarrow> duration) \<Rightarrow> 'd pb_StatusResponse_ptrs option \<Rightarrow> StatusResponse_ptrs option
     \<Rightarrow> result \<times> StatusResponse_ptrs option" where
  "StatusResponse_UnmarshalPB_ptrs AsDuration q p =
     (case q of
        None \<Rightarrow> (Panics, p)
      | Some v \<Rightarrow>
          (case p of
             None \<Rightarrow> (Panics, p)
           | Some s \<Rightarrow>
               (case UnmarshalPB_NodesUp_ptrs AsDuration (pb_ptrs_NodesUp v) [] of
                  (Panics, up) \<Rightarrow> (Panics, Some (s\<lparr>ptrs_NodesUp := up\<rparr>))
                | (Returns (Some err), up) \<Rightarrow>
                    (Returns (Some err), Some (s\<lparr>ptrs_NodesUp := up\<rparr>))
                | (Returns None, up) \<Rightarrow>
                    (Returns None,
                     Some (s\<lparr>ptrs_NodesUp := up,
                             ptrs_NodesDown := range_put ucast (pb_ptrs_NodesDown v) []\<rparr>)))))"

text \<open>A map of values as a map of non-nil pointers.\<close>

definition non_nil :: "('k \<times> 'a) list \<Rightarrow> ('k \<times> 'a option) list" where
  "non_nil m = map (\<lambda>(k, x). (k, Some x)) m"

section \<open>Durations on the wire\<close>







section \<open>Keys of a copied map and conversions between word sizes\<close>

lemma keys_update: "set (map fst (AList.update k v al)) = insert k (set (map fst al))"
  by (induction al) auto

lemma keys_range_put:
  "set (map fst (range_put conv src dst)) = set (map fst dst) \<union> conv ` set (map fst src)"
proof (induction src arbitrary: dst)
  case Nil
  then show ?case by simp
next
  case (Cons p src)
  obtain k x where p: "p = (k, x)" by (cases p)
  show ?case unfolding p by (simp add: Cons.IH keys_update del: set_map)
qed

lemma update_fresh: "k \<notin> set (map fst al) \<Longrightarrow> AList.update k v al = al @ [(k, v)]"
  by (induction al) auto

lemma range_put_fresh:
  "distinct (map conv (map fst src)) \<Longrightarrow> set (map conv (map fst src)) \<inter> set (map fst dst) = {}
   \<Longrightarrow> range_put conv src dst = dst @ map (\<lambda>(k, x). (conv k, x)) src"
proof (induction src arbitrary: dst)
  case Nil
  then show ?case by simp
next
  case (Cons p src)
  obtain k x where p: "p = (k, x)" by (cases p)
  have fresh: "conv k \<notin> set (map fst dst)" using Cons.prems p by auto
  have upd: "AList.update (conv k) x dst = dst @ [(conv k, x)]"
    using fresh by (rule update_fresh)
  have d: "distinct (map conv (map fst src))" using Cons.prems(1) by simp
  have i: "set (map conv (map fst src)) \<inter> set (map fst (dst @ [(conv k, x)])) = {}"
    using Cons.prems p by auto
  show ?case unfolding p using Cons.IH [OF d i] by (simp add: upd)
qed

lemma unat_down: "unat (ucast (x::64 word) :: 32 word) = unat x mod 2^32"
  by (simp add: unsigned_ucast_eq take_bit_eq_mod)

lemma unat_32_less: "unat (x::32 word) < 2 ^ 32"
  using unsigned_less [of x, where 'a=nat] by simp

lemma unat_up: "unat (ucast (x::32 word) :: 64 word) = unat x"
proof -
  have "unat x < 2 ^ 32" by (rule unat_32_less)
  then show ?thesis by (simp add: unsigned_ucast_eq take_bit_eq_mod)
qed

lemma down_up: "unat (x::64 word) < 2^32 \<Longrightarrow> (ucast (ucast x :: 32 word) :: 64 word) = x"
proof -
  assume a: "unat x < 2^32"
  have "unat (ucast (ucast x :: 32 word) :: 64 word) = unat x"
    using a by (simp add: unat_up unat_down)
  then show ?thesis by (rule word_unat_eq_iff [THEN iffD2])
qed

lemma up_down: "(ucast (ucast (x::32 word) :: 64 word) :: 32 word) = x"
proof -
  have "unat x mod 2 ^ 32 = unat x" by (rule mod_less) (rule unat_32_less)
  then have "unat (ucast (ucast x :: 64 word) :: 32 word) = unat x"
    by (simp only: unat_up unat_down)
  then show ?thesis by (rule word_unat_eq_iff [THEN iffD2])
qed

lemma ucast_32_64_inj: "(ucast (a::32 word) :: 64 word) = ucast b \<Longrightarrow> a = b"
  by (metis up_down)


lemma UnmarshalPB_NodesUp_nil: "fst (UnmarshalPB_NodesUp AsDuration src dst) = None"
  by (induction src arbitrary: dst) (auto simp: NodeStatusResponse_UnmarshalPB_def)

lemma keys_UnmarshalPB_NodesUp:
  "set (map fst (snd (UnmarshalPB_NodesUp AsDuration src dst))) =
     set (map fst dst) \<union> ucast ` set (map fst src)"
proof (induction src arbitrary: dst)
  case Nil
  then show ?case by simp
next
  case (Cons p src)
  obtain k x where p: "p = (k, x)" by (cases p)
  show ?case unfolding p
    by (simp add: Cons.IH keys_update NodeStatusResponse_UnmarshalPB_def del: set_map)
qed

lemma Nodes_roundtrip:
  assumes d: "distinct (map fst ns)" and r: "\<forall>k \<in> set (map fst ns). unat k < 2 ^ 32"
  shows "range_put (ucast :: 32 word \<Rightarrow> 64 word)
           (range_put (ucast :: 64 word \<Rightarrow> 32 word) ns []) [] = (ns :: (64 word \<times> 'v) list)"
proof -
  let ?dn = "ucast :: 64 word \<Rightarrow> 32 word"
  let ?up = "ucast :: 32 word \<Rightarrow> 64 word"
  have rt: "?up (?dn k) = k" if "k \<in> set (map fst ns)" for k
  proof -
    from r that have "unat k < 2 ^ 32" by blast
    then show ?thesis by (rule down_up)
  qed
  have inj: "inj_on ?dn (set (map fst ns))"
    by (rule inj_on_inverseI [where g = ?up]) (rule rt)
  have d1: "distinct (map ?dn (map fst ns))"
    using d inj by (simp add: distinct_map del: set_map map_map)
  have m1: "range_put ?dn ns [] = map (\<lambda>(k, x). (?dn k, x)) ns"
    using range_put_fresh [of ?dn ns "[]"] d1 by simp
  have keys1: "map fst (map (\<lambda>(k, x). (?dn k, x)) ns) = map ?dn (map fst ns)"
    by (induction ns) auto
  have idm: "map ?up (map ?dn (map fst ns)) = map fst ns"
    using rt by (induction ns) auto
  have d2: "distinct (map ?up (map fst (map (\<lambda>(k, x). (?dn k, x)) ns)))"
    unfolding keys1 idm by (rule d)
  have m2: "range_put ?up (map (\<lambda>(k, x). (?dn k, x)) ns) []
              = map (\<lambda>(k, x). (?up k, x)) (map (\<lambda>(k, x). (?dn k, x)) ns)"
    using range_put_fresh [of ?up "map (\<lambda>(k, x). (?dn k, x)) ns" "[]"] d2 by simp
  have "map (\<lambda>(k, x). (?up k, x)) (map (\<lambda>(k, x). (?dn k, x)) ns) = ns"
    using rt by (induction ns) auto
  then show ?thesis by (simp only: m1 m2)
qed

section \<open>Outcomes of the calls through pointers\<close>

lemma MarshalPB_NodesUp_ptrs_result:
  "fst (MarshalPB_NodesUp_ptrs Duration src dst)
     = (if None \<in> snd ` set src then Panics else Returns None)"
proof (induction src arbitrary: dst)
  case Nil
  then show ?case by simp
next
  case (Cons p src)
  obtain k resp where p: "p = (k, resp)" by (cases p)
  show ?case
  proof (cases resp)
    case None
    then show ?thesis by (simp add: p call_method_def)
  next
    case (Some n)
    then show ?thesis
      using Cons.IH by (simp add: p call_method_def NodeStatusResponse_MarshalPB_def)
  qed
qed

lemma UnmarshalPB_NodesUp_ptrs_result:
  "fst (UnmarshalPB_NodesUp_ptrs AsDuration src dst)
     = (if None \<in> snd ` set src then Panics else Returns None)"
proof (induction src arbitrary: dst)
  case Nil
  then show ?case by simp
next
  case (Cons p src)
  obtain k resp where p: "p = (k, resp)" by (cases p)
  show ?case
  proof (cases resp)
    case None
    then show ?thesis by (simp add: p call_method_def)
  next
    case (Some n)
    then show ?thesis
      using Cons.IH by (simp add: p call_method_def NodeStatusResponse_UnmarshalPB_def)
  qed
qed

lemma StatusResponse_MarshalPB_ptrs_result:
  "fst (StatusResponse_MarshalPB_ptrs Duration (Some s) (Some v))
     = (if None \<in> snd ` set (ptrs_NodesUp s) then Panics else Returns None)"
proof -
  obtain r up where m: "MarshalPB_NodesUp_ptrs Duration (ptrs_NodesUp s) [] = (r, up)"
    by (cases "MarshalPB_NodesUp_ptrs Duration (ptrs_NodesUp s) []")
  have r: "r = (if None \<in> snd ` set (ptrs_NodesUp s) then Panics else Returns None)"
    using MarshalPB_NodesUp_ptrs_result [of Duration "ptrs_NodesUp s" "[]"] m by simp
  show ?thesis
    by (simp add: StatusResponse_MarshalPB_ptrs_def m r)
qed

lemma StatusResponse_UnmarshalPB_ptrs_result:
  "fst (StatusResponse_UnmarshalPB_ptrs AsDuration (Some v) (Some s))
     = (if None \<in> snd ` set (pb_ptrs_NodesUp v) then Panics else Returns None)"
proof -
  obtain r up where m: "UnmarshalPB_NodesUp_ptrs AsDuration (pb_ptrs_NodesUp v) [] = (r, up)"
    by (cases "UnmarshalPB_NodesUp_ptrs AsDuration (pb_ptrs_NodesUp v) []")
  have r: "r = (if None \<in> snd ` set (pb_ptrs_NodesUp v) then Panics else Returns None)"
    using UnmarshalPB_NodesUp_ptrs_result [of AsDuration "pb_ptrs_NodesUp v" "[]"] m by simp
  show ?thesis
    by (simp add: StatusResponse_UnmarshalPB_ptrs_def m r)
qed

lemma call_method_nil:
  "fst (call_method body None q) = Panics" "fst (call_method body p None) = Panics"
  by (simp_all add: call_method_def split: option.splits)

lemma call_method_Some:
  "call_method body (Some a) (Some b) = (Returns (fst (body a b)), Some (snd (body a b)))"
  by (simp add: call_method_def split: prod.splits)

lemma StatusResponse_ptrs_nil:
  "fst (StatusResponse_MarshalPB_ptrs Duration None sq) = Panics"
  "fst (StatusResponse_MarshalPB_ptrs Duration sp None) = Panics"
  "fst (StatusResponse_UnmarshalPB_ptrs AsDuration None sp) = Panics"
  "fst (StatusResponse_UnmarshalPB_ptrs AsDuration sq None) = Panics"
  by (simp_all add: StatusResponse_MarshalPB_ptrs_def StatusResponse_UnmarshalPB_ptrs_def
      split: option.splits)

lemma non_nil_update: "AList.update k (Some x) (non_nil m) = non_nil (AList.update k x m)"
  by (induction m) (auto simp: non_nil_def)

lemma UnmarshalPB_NodesUp_ptrs_non_nil:
  "UnmarshalPB_NodesUp_ptrs AsDuration (non_nil src) (non_nil dst)
     = (Returns None, non_nil (snd (UnmarshalPB_NodesUp AsDuration src dst)))"
proof (induction src arbitrary: dst)
  case Nil
  then show ?case by (simp add: non_nil_def)
next
  case (Cons p src)
  obtain k resp where p: "p = (k, resp)" by (cases p)
  have c: "non_nil ((k, resp) # src) = (k, Some resp) # non_nil src"
    by (simp add: non_nil_def)
  show ?case
    unfolding p c
    by (simp add: call_method_def NodeStatusResponse_UnmarshalPB_def non_nil_update Cons.IH)
qed

section \<open>The duration conversion\<close>



lemma sint_secs_range:
  "- 9223372036854775808 \<le> sint (s :: 64 word) \<and> sint s < 9223372036854775808"
  using sint_ge [of s] sint_lt [of s] by simp












section \<open>Round trip of a node status\<close>

text \<open>
  C2, as the code has it: for every \<^verbatim>\<open>NodeStatusResponse\<close> \<open>x\<close> whose \<^verbatim>\<open>ID\<close>,
  \<^verbatim>\<open>CPUs\<close>, \<^verbatim>\<open>UsableCPUs\<close> and keys of \<^verbatim>\<open>Nodes\<close> lie in the range of an unsigned
  32-bit integer, and whose three durations the protobuf duration conversion
  gives back unchanged, \<^verbatim>\<open>MarshalPB\<close> followed by \<^verbatim>\<open>UnmarshalPB\<close> yields a value
  that agrees with \<open>x\<close> in every field other than \<^verbatim>\<open>UpTime\<close>: \<^verbatim>\<open>Version\<close>,
  \<^verbatim>\<open>APIVersion\<close>, \<^verbatim>\<open>Endpoint\<close>, \<^verbatim>\<open>Role\<close>, \<^verbatim>\<open>Commit\<close>, \<^verbatim>\<open>Nodes\<close>, \<^verbatim>\<open>ID\<close>,
  \<^verbatim>\<open>LeaderID\<close>, the three durations, \<^verbatim>\<open>OS\<close>, \<^verbatim>\<open>CPUArch\<close>, \<^verbatim>\<open>CPUs\<close>,
  \<^verbatim>\<open>UsableCPUs\<close>, \<^verbatim>\<open>HeapMemInUse\<close> and \<^verbatim>\<open>StackMemInUse\<close>. (That the keys of
  \<^verbatim>\<open>Nodes\<close> are distinct holds of every Go map.)
\<close>

theorem NodeStatusResponse_roundtrip_except_UpTime:
  assumes "unat (ID x) < 2 ^ 32" and "unat (CPUs x) < 2 ^ 32" and "unat (UsableCPUs x) < 2 ^ 32"
    and "distinct (map fst (Nodes x))" and "\<forall>k \<in> set (map fst (Nodes x)). unat k < 2 ^ 32"
    and "AsDuration (Duration (LastHeartbeat x)) = LastHeartbeat x"
    and "AsDuration (Duration (HeartbeatInterval x)) = HeartbeatInterval x"
    and "AsDuration (Duration (ElectionTimeout x)) = ElectionTimeout x"
  shows "(NodeStatusResponse_roundtrip Duration AsDuration x)\<lparr>UpTime := u\<rparr> = x\<lparr>UpTime := u\<rparr>"
  using assms
  by (cases x)
     (simp add: NodeStatusResponse_roundtrip_def NodeStatusResponse_MarshalPB_def
       NodeStatusResponse_UnmarshalPB_def new_NodeStatusResponse_def
       new_pb_NodeStatusResponse_def down_up Nodes_roundtrip del: set_map)

text \<open>The theorem at a node with two peers, a negative leader ID and an up time.\<close>

theorem NodeStatusResponse_roundtrip_witness:
  "(NodeStatusResponse_roundtrip Some (case_option 0 id)
      (new_NodeStatusResponse\<lparr>Nodes := [(0, ''a:7373''), (1, ''b:7373'')], ID := 1,
         LeaderID := - 1, LastHeartbeat := 5, UpTime := 9, CPUs := 8, UsableCPUs := 4\<rparr>))
     \<lparr>UpTime := 0\<rparr>
   = (new_NodeStatusResponse\<lparr>Nodes := [(0, ''a:7373''), (1, ''b:7373'')], ID := 1,
         LeaderID := - 1, LastHeartbeat := 5, UpTime := 9, CPUs := 8, UsableCPUs := 4\<rparr>)
     \<lparr>UpTime := 0\<rparr>"
  by (rule NodeStatusResponse_roundtrip_except_UpTime) (simp_all add: new_NodeStatusResponse_def)

text \<open>
  C2 as stated fails: a node ID of \<open>2 ^ 32\<close> comes back as 0, since \<^verbatim>\<open>uint32(s.ID)\<close>
  keeps the low 32 bits, and an up time of 1 comes back as 0, since neither
  method copies \<^verbatim>\<open>UpTime\<close>.
\<close>

theorem NodeStatusResponse_roundtrip_counterexample:
  "ID (NodeStatusResponse_roundtrip Some (case_option 0 id)
         (new_NodeStatusResponse\<lparr>ID := 4294967296, UpTime := 1\<rparr>))
     \<noteq> ID (new_NodeStatusResponse\<lparr>ID := 4294967296, UpTime := 1\<rparr>)
   \<and> UpTime (NodeStatusResponse_roundtrip Some (case_option 0 id)
         (new_NodeStatusResponse\<lparr>ID := 4294967296, UpTime := 1\<rparr>))
     \<noteq> UpTime (new_NodeStatusResponse\<lparr>ID := 4294967296, UpTime := 1\<rparr>)"
  by (simp add: NodeStatusResponse_roundtrip_def NodeStatusResponse_MarshalPB_def
       NodeStatusResponse_UnmarshalPB_def new_NodeStatusResponse_def
       new_pb_NodeStatusResponse_def)

section \<open>Length of a generated key\<close>

text \<open>
  C3, for the server modelled from the spec: a request with a length \<open>l\<close>,
  \<open>0 < l \<le> 1024\<close>, gets a plaintext key of exactly \<open>l\<close> bytes; a request with no
  length gets 32 bytes; a requested length of 0 gets 32 bytes; and a length above
  1024 is rejected with the stream of key material untouched.
\<close>

theorem GenerateKey_length:
  "(greq_Length req = Some l \<and> 0 < unat l \<and> unat l \<le> 1024 \<longrightarrow>
      map_sum id length (fst (GenerateKey_plaintext (Some req) rng)) = Inr (unat l))
   \<and> (greq_Length req = None \<longrightarrow>
      map_sum id length (fst (GenerateKey_plaintext (Some req) rng)) = Inr 32)
   \<and> (greq_Length req = Some 0 \<longrightarrow>
      map_sum id length (fst (GenerateKey_plaintext (Some req) rng)) = Inr 32)
   \<and> (greq_Length req = Some l \<and> 1024 < unat l \<longrightarrow>
      GenerateKey_plaintext (Some req) rng = (Inl LengthOutOfRange, rng))"
  by (simp add: GenerateKey_plaintext_def GetLength_def Let_def)

text \<open>The four cases at the lengths 16, absent, 0 and 1025.\<close>

theorem GenerateKey_length_witness:
  "map_sum id length (fst (GenerateKey_plaintext
      (Some \<lparr>greq_Version = 0, greq_AssociatedData = [], greq_Length = Some 16\<rparr>) (sconst 0)))
     = Inr (unat (16 :: 32 word))
   \<and> map_sum id length (fst (GenerateKey_plaintext
      (Some \<lparr>greq_Version = 0, greq_AssociatedData = [], greq_Length = None\<rparr>) (sconst 0)))
     = Inr 32
   \<and> map_sum id length (fst (GenerateKey_plaintext
      (Some \<lparr>greq_Version = 0, greq_AssociatedData = [], greq_Length = Some 0\<rparr>) (sconst 0)))
     = Inr 32
   \<and> GenerateKey_plaintext
      (Some \<lparr>greq_Version = 0, greq_AssociatedData = [], greq_Length = Some 1025\<rparr>) (sconst 0)
     = (Inl LengthOutOfRange, sconst 0)"
proof (intro conjI)
  show "map_sum id length (fst (GenerateKey_plaintext
      (Some \<lparr>greq_Version = 0, greq_AssociatedData = [], greq_Length = Some 16\<rparr>) (sconst 0)))
     = Inr (unat (16 :: 32 word))"
    by (rule GenerateKey_length [THEN conjunct1, THEN mp]) simp
  show "map_sum id length (fst (GenerateKey_plaintext
      (Some \<lparr>greq_Version = 0, greq_AssociatedData = [], greq_Length = None\<rparr>) (sconst 0)))
     = Inr 32"
    by (rule GenerateKey_length [THEN conjunct2, THEN conjunct1, THEN mp]) simp
  show "map_sum id length (fst (GenerateKey_plaintext
      (Some \<lparr>greq_Version = 0, greq_AssociatedData = [], greq_Length = Some 0\<rparr>) (sconst 0)))
     = Inr 32"
    by (rule GenerateKey_length [THEN conjunct2, THEN conjunct2, THEN conjunct1, THEN mp]) simp
  show "GenerateKey_plaintext
      (Some \<lparr>greq_Version = 0, greq_AssociatedData = [], greq_Length = Some 1025\<rparr>) (sconst 0)
     = (Inl LengthOutOfRange, sconst 0)"
    by (rule GenerateKey_length [where l = 1025, THEN conjunct2, THEN conjunct2,
          THEN conjunct2, THEN mp]) simp
qed

section \<open>Numeric conversions of a node status\<close>





section \<open>The two encodings of a response\<close>

text \<open>
  C6: let \<open>bnr\<close> be a binary and \<open>jsn\<close> a textual encoding of the same message \<open>m\<close>
  (the decoder of each encoding returns \<open>m\<close> for it). Then \<^verbatim>\<open>readResponse\<close> on a
  response that carries \<open>bnr\<close> with the binary content type and on a response
  that carries \<open>jsn\<close> with any other content type, each with the content length
  of its body, returns the same error and leaves the same typed value, the one
  that \<^verbatim>\<open>UnmarshalPB\<close> makes of \<open>m\<close>.
\<close>

theorem readResponse_encoding_independent:
  assumes "proto_Unmarshal bnr = Inr m" and "protojson_Unmarshal jsn = Inr m"
    and "ContentType rb = ContentTypeBinary" and "Body rb = bnr"
    and "sint (ContentLength rb) = int (length bnr)"
    and "ContentType rt \<noteq> ContentTypeBinary" and "Body rt = jsn"
    and "sint (ContentLength rt) = int (length jsn)"
  shows "fst (readResponse ContentTypeBinary proto_Unmarshal protojson_Unmarshal UnmarshalPB rb v)
           = fst (readResponse ContentTypeBinary proto_Unmarshal protojson_Unmarshal UnmarshalPB rt v)
       \<and> snd (snd (readResponse ContentTypeBinary proto_Unmarshal protojson_Unmarshal UnmarshalPB rb v))
           = snd (snd (readResponse ContentTypeBinary proto_Unmarshal protojson_Unmarshal UnmarshalPB rt v))
       \<and> snd (snd (readResponse ContentTypeBinary proto_Unmarshal protojson_Unmarshal UnmarshalPB rb v))
           = snd (UnmarshalPB m v)"
  using assms by (simp add: readResponse_def ReadFull_def split: prod.splits)

text \<open>
  The theorem for a \<^verbatim>\<open>DecryptResponse\<close>, with a binary decoder that takes the
  body as the plaintext and a textual one that takes the body reversed.
\<close>

theorem readResponse_encoding_independent_witness:
  "fst (readResponse ''application/x-protobuf''
          (\<lambda>b. Inr \<lparr>pb_dec_Plaintext = b\<rparr>) (\<lambda>b. Inr \<lparr>pb_dec_Plaintext = rev b\<rparr>)
          DecryptResponse_UnmarshalPB
          \<lparr>ContentLength = 2, ContentType = ''application/x-protobuf'', Body = [1, 2]\<rparr>
          \<lparr>dec_Plaintext = []\<rparr>)
     = fst (readResponse ''application/x-protobuf''
          (\<lambda>b. Inr \<lparr>pb_dec_Plaintext = b\<rparr>) (\<lambda>b. Inr \<lparr>pb_dec_Plaintext = rev b\<rparr>)
          DecryptResponse_UnmarshalPB
          \<lparr>ContentLength = 2, ContentType = ''application/json'', Body = [2, 1]\<rparr>
          \<lparr>dec_Plaintext = []\<rparr>)
   \<and> snd (snd (readResponse ''application/x-protobuf''
          (\<lambda>b. Inr \<lparr>pb_dec_Plaintext = b\<rparr>) (\<lambda>b. Inr \<lparr>pb_dec_Plaintext = rev b\<rparr>)
          DecryptResponse_UnmarshalPB
          \<lparr>ContentLength = 2, ContentType = ''application/x-protobuf'', Body = [1, 2]\<rparr>
          \<lparr>dec_Plaintext = []\<rparr>))
     = snd (snd (readResponse ''application/x-protobuf''
          (\<lambda>b. Inr \<lparr>pb_dec_Plaintext = b\<rparr>) (\<lambda>b. Inr \<lparr>pb_dec_Plaintext = rev b\<rparr>)
          DecryptResponse_UnmarshalPB
          \<lparr>ContentLength = 2, ContentType = ''application/json'', Body = [2, 1]\<rparr>
          \<lparr>dec_Plaintext = []\<rparr>))
   \<and> snd (snd (readResponse ''application/x-protobuf''
          (\<lambda>b. Inr \<lparr>pb_dec_Plaintext = b\<rparr>) (\<lambda>b. Inr \<lparr>pb_dec_Plaintext = rev b\<rparr>)
          DecryptResponse_UnmarshalPB
          \<lparr>ContentLength = 2, ContentType = ''application/x-protobuf'', Body = [1, 2]\<rparr>
          \<lparr>dec_Plaintext = []\<rparr>))
     = snd (DecryptResponse_UnmarshalPB \<lparr>pb_dec_Plaintext = [1, 2]\<rparr> \<lparr>dec_Plaintext = []\<rparr>)"
  by (rule readResponse_encoding_independent [where bnr = "[1, 2]" and jsn = "[2, 1]"]) simp_all

section \<open>Membership of a cluster status\<close>

text \<open>
  C7, as the code has it: \<^verbatim>\<open>StatusResponse.UnmarshalPB\<close> applied to a wire
  message whose \<^verbatim>\<open>NodesUp\<close> and \<^verbatim>\<open>NodesDown\<close> have no key in common produces a
  \<^verbatim>\<open>StatusResponse\<close> whose \<^verbatim>\<open>NodesUp\<close> and \<^verbatim>\<open>NodesDown\<close> have no key in common.
\<close>

theorem StatusResponse_UnmarshalPB_disjoint:
  assumes "set (map fst (pb_NodesUp v)) \<inter> set (map fst (pb_NodesDown v)) = {}"
  shows "set (map fst (NodesUp (snd (StatusResponse_UnmarshalPB AsDuration v s))))
           \<inter> set (map fst (NodesDown (snd (StatusResponse_UnmarshalPB AsDuration v s)))) = {}"
proof -
  obtain e up where r: "UnmarshalPB_NodesUp AsDuration (pb_NodesUp v) [] = (e, up)"
    by (cases "UnmarshalPB_NodesUp AsDuration (pb_NodesUp v) []")
  have e: "e = None" using UnmarshalPB_NodesUp_nil [of AsDuration "pb_NodesUp v" "[]"] r by simp
  have up: "set (map fst up) = ucast ` set (map fst (pb_NodesUp v))"
    using keys_UnmarshalPB_NodesUp [of AsDuration "pb_NodesUp v" "[]"] r by simp
  have down: "set (map fst (range_put (ucast :: 32 word \<Rightarrow> 64 word) (pb_NodesDown v) []))
                = ucast ` set (map fst (pb_NodesDown v))"
    by (simp add: keys_range_put del: set_map)
  have "(ucast :: 32 word \<Rightarrow> 64 word) ` set (map fst (pb_NodesUp v))
          \<inter> ucast ` set (map fst (pb_NodesDown v)) = {}"
    using assms by (auto dest: ucast_32_64_inj)
  then show ?thesis
    by (simp add: StatusResponse_UnmarshalPB_def r e up down del: set_map)
qed

text \<open>The theorem at a cluster with node 1 up and node 2 down.\<close>

theorem StatusResponse_UnmarshalPB_disjoint_witness:
  "set (map fst (NodesUp (snd (StatusResponse_UnmarshalPB (case_option 0 id)
          \<lparr>pb_NodesUp = [(1, new_pb_NodeStatusResponse)], pb_NodesDown = [(2, ''b:7373'')]\<rparr>
          \<lparr>NodesUp = [], NodesDown = []\<rparr>))))
     \<inter> set (map fst (NodesDown (snd (StatusResponse_UnmarshalPB (case_option 0 id)
          \<lparr>pb_NodesUp = [(1, new_pb_NodeStatusResponse)], pb_NodesDown = [(2, ''b:7373'')]\<rparr>
          \<lparr>NodesUp = [], NodesDown = []\<rparr>)))) = {}"
  by (rule StatusResponse_UnmarshalPB_disjoint) simp

text \<open>
  C7 as stated fails: not every \<^verbatim>\<open>StatusResponse\<close> has disjoint key sets. A wire
  message that lists node 1 as up and as down is converted without complaint,
  and node 1 is in both maps of the result.
\<close>

theorem StatusResponse_disjoint_counterexample:
  "set (map fst (NodesUp (snd (StatusResponse_UnmarshalPB (case_option 0 id)
          \<lparr>pb_NodesUp = [(1, new_pb_NodeStatusResponse)], pb_NodesDown = [(1, ''b:7373'')]\<rparr>
          \<lparr>NodesUp = [], NodesDown = []\<rparr>))))
     \<inter> set (map fst (NodesDown (snd (StatusResponse_UnmarshalPB (case_option 0 id)
          \<lparr>pb_NodesUp = [(1, new_pb_NodeStatusResponse)], pb_NodesDown = [(1, ''b:7373'')]\<rparr>
          \<lparr>NodesUp = [], NodesDown = []\<rparr>)))) \<noteq> {}"
  by (simp add: StatusResponse_UnmarshalPB_def NodeStatusResponse_UnmarshalPB_def)

section \<open>Malformed responses\<close>

text \<open>
  C8: for a response with a negative content length, \<^verbatim>\<open>readResponse\<close> returns
  the error 411 (Length Required), whatever the decoders and \<^verbatim>\<open>UnmarshalPB\<close> are,
  and leaves the body of the response and the value \<open>v\<close> as they were: nothing
  is read and nothing is decoded. When the body has been read and its decoder
  fails, \<^verbatim>\<open>readResponse\<close> returns the error of that one decoding and leaves \<open>v\<close>
  as it was.
\<close>

theorem readResponse_malformed:
  "(sint (ContentLength r) < 0 \<longrightarrow>
      readResponse ContentTypeBinary proto_Unmarshal protojson_Unmarshal UnmarshalPB r v
        = (Some (Error 411 ''request content length is negative''), r, v))
   \<and> (0 \<le> sint (ContentLength r)
        \<and> ReadFull (Body r) (nat (sint (ContentLength r))) = (Inr buf, rest)
        \<and> (if ContentType r = ContentTypeBinary then proto_Unmarshal buf
            else protojson_Unmarshal buf) = Inl err \<longrightarrow>
      readResponse ContentTypeBinary proto_Unmarshal protojson_Unmarshal UnmarshalPB r v
        = (Some err, r\<lparr>Body := rest\<rparr>, v))"
  by (simp add: readResponse_def)

text \<open>
  Both cases for a \<^verbatim>\<open>DecryptResponse\<close>: a content length of \<open>-1\<close>, and a textual
  body of two bytes that its decoder rejects.
\<close>

theorem readResponse_malformed_witness:
  "readResponse ''application/x-protobuf''
      (\<lambda>b. Inr \<lparr>pb_dec_Plaintext = b\<rparr>) (\<lambda>b. Inl (UnmarshalError ''syntax error''))
      DecryptResponse_UnmarshalPB
      \<lparr>ContentLength = - 1, ContentType = ''application/json'', Body = [1, 2, 3]\<rparr>
      \<lparr>dec_Plaintext = [7]\<rparr>
    = (Some (Error 411 ''request content length is negative''),
       \<lparr>ContentLength = - 1, ContentType = ''application/json'', Body = [1, 2, 3]\<rparr>,
       \<lparr>dec_Plaintext = [7]\<rparr>)
   \<and> readResponse ''application/x-protobuf''
      (\<lambda>b. Inr \<lparr>pb_dec_Plaintext = b\<rparr>) (\<lambda>b. Inl (UnmarshalError ''syntax error''))
      DecryptResponse_UnmarshalPB
      \<lparr>ContentLength = 2, ContentType = ''application/json'', Body = [1, 2, 3]\<rparr>
      \<lparr>dec_Plaintext = [7]\<rparr>
    = (Some (UnmarshalError ''syntax error''),
       \<lparr>ContentLength = 2, ContentType = ''application/json'', Body = [1, 2, 3]\<rparr>
         \<lparr>Body := [3]\<rparr>,
       \<lparr>dec_Plaintext = [7]\<rparr>)"
proof (rule conjI)
  show "readResponse ''application/x-protobuf''
      (\<lambda>b. Inr \<lparr>pb_dec_Plaintext = b\<rparr>) (\<lambda>b. Inl (UnmarshalError ''syntax error''))
      DecryptResponse_UnmarshalPB
      \<lparr>ContentLength = - 1, ContentType = ''application/json'', Body = [1, 2, 3]\<rparr>
      \<lparr>dec_Plaintext = [7]\<rparr>
    = (Some (Error 411 ''request content length is negative''),
       \<lparr>ContentLength = - 1, ContentType = ''application/json'', Body = [1, 2, 3]\<rparr>,
       \<lparr>dec_Plaintext = [7]\<rparr>)"
    by (rule readResponse_malformed [THEN conjunct1, THEN mp]) simp
next
  show "readResponse ''application/x-protobuf''
      (\<lambda>b. Inr \<lparr>pb_dec_Plaintext = b\<rparr>) (\<lambda>b. Inl (UnmarshalError ''syntax error''))
      DecryptResponse_UnmarshalPB
      \<lparr>ContentLength = 2, ContentType = ''application/json'', Body = [1, 2, 3]\<rparr>
      \<lparr>dec_Plaintext = [7]\<rparr>
    = (Some (UnmarshalError ''syntax error''),
       \<lparr>ContentLength = 2, ContentType = ''application/json'', Body = [1, 2, 3]\<rparr>
         \<lparr>Body := [3]\<rparr>,
       \<lparr>dec_Plaintext = [7]\<rparr>)"
    by (rule readResponse_malformed [where buf = "[1, 2]", THEN conjunct2, THEN mp])
       (simp add: ReadFull_def)
qed

section \<open>Labels of the textual encoding\<close>

text \<open>
  C9: the field \<^verbatim>\<open>RemoveIDs\<close> of an \<^verbatim>\<open>EditClusterRequest\<close> has the label
  \<^verbatim>\<open>remove\<close> in the textual encoding, the field \<^verbatim>\<open>AssociatedData\<close> of an
  \<^verbatim>\<open>EncryptRequest\<close>, a \<^verbatim>\<open>DecryptRequest\<close> and a \<^verbatim>\<open>GenerateKeyRequest\<close> has the
  label \<^verbatim>\<open>associated_data\<close>, and every field of the four messages has a label
  in lowercase snake case. The labels are fixed by the message type, not by the
  value of a request.
\<close>

theorem JSON_labels:
  "JSONName EditClusterRequest_tags ''RemoveIDs'' = Some ''remove''
   \<and> JSONName EncryptRequest_tags ''AssociatedData'' = Some ''associated_data''
   \<and> JSONName DecryptRequest_tags ''AssociatedData'' = Some ''associated_data''
   \<and> JSONName GenerateKeyRequest_tags ''AssociatedData'' = Some ''associated_data''
   \<and> list_all (\<lambda>(field, tag). case tag_json tag of Some l \<Rightarrow> snake_case l | None \<Rightarrow> False)
         (EditClusterRequest_tags @ EncryptRequest_tags @ GenerateKeyRequest_tags
            @ DecryptRequest_tags)"
  by (simp add: JSONName_def tag_json_def snake_case_def EditClusterRequest_tags_def
       EncryptRequest_tags_def GenerateKeyRequest_tags_def DecryptRequest_tags_def)

section \<open>The conversions never report an error\<close>

text \<open>
  C10, as the code has it: called with a non-nil receiver and a non-nil
  message, \<^verbatim>\<open>MarshalPB\<close> and \<^verbatim>\<open>UnmarshalPB\<close> of \<^verbatim>\<open>NodeStatusResponse\<close>,
  \<^verbatim>\<open>EncryptResponse\<close>, \<^verbatim>\<open>DecryptResponse\<close> and \<^verbatim>\<open>GenerateKeyResponse\<close> return
  nil, and those of \<^verbatim>\<open>StatusResponse\<close> return nil when no entry of the map
  \<^verbatim>\<open>NodesUp\<close> they read is nil. No method ever returns an error other than nil,
  so the early return on an error in the loops of \<^verbatim>\<open>StatusResponse\<close> is never
  taken. With a nil receiver, a nil message or a nil entry of \<^verbatim>\<open>NodesUp\<close> the
  method panics instead of returning.
\<close>

theorem conversions_return_nil_or_panic:
  "fst (call_method (NodeStatusResponse_MarshalPB Duration) (Some ns) (Some nv)) = Returns None
   \<and> fst (call_method (NodeStatusResponse_UnmarshalPB AsDuration) (Some nv) (Some ns))
        = Returns None
   \<and> fst (call_method EncryptResponse_MarshalPB (Some er) (Some ev)) = Returns None
   \<and> fst (call_method EncryptResponse_UnmarshalPB (Some ev) (Some er)) = Returns None
   \<and> fst (call_method DecryptResponse_MarshalPB (Some dr) (Some dv)) = Returns None
   \<and> fst (call_method DecryptResponse_UnmarshalPB (Some dv) (Some dr)) = Returns None
   \<and> fst (call_method GenerateKeyResponse_MarshalPB (Some gr) (Some gv)) = Returns None
   \<and> fst (call_method GenerateKeyResponse_UnmarshalPB (Some gv) (Some gr)) = Returns None
   \<and> fst (StatusResponse_MarshalPB_ptrs Duration (Some ss) (Some sv))
        = (if None \<in> snd ` set (ptrs_NodesUp ss) then Panics else Returns None)
   \<and> fst (StatusResponse_UnmarshalPB_ptrs AsDuration (Some sv) (Some ss))
        = (if None \<in> snd ` set (pb_ptrs_NodesUp sv) then Panics else Returns None)
   \<and> fst (call_method body None q) = Panics
   \<and> fst (call_method body p None) = Panics
   \<and> fst (StatusResponse_MarshalPB_ptrs Duration None sq) = Panics
   \<and> fst (StatusResponse_MarshalPB_ptrs Duration sp None) = Panics
   \<and> fst (StatusResponse_UnmarshalPB_ptrs AsDuration None sp) = Panics
   \<and> fst (StatusResponse_UnmarshalPB_ptrs AsDuration sq None) = Panics"
  by (simp add: StatusResponse_MarshalPB_ptrs_result StatusResponse_UnmarshalPB_ptrs_result
      StatusResponse_ptrs_nil call_method_nil call_method_Some
      NodeStatusResponse_MarshalPB_def NodeStatusResponse_UnmarshalPB_def
      EncryptResponse_MarshalPB_def EncryptResponse_UnmarshalPB_def
      DecryptResponse_MarshalPB_def DecryptResponse_UnmarshalPB_def
      GenerateKeyResponse_MarshalPB_def GenerateKeyResponse_UnmarshalPB_def)

text \<open>
  C10 as stated fails: \<^verbatim>\<open>StatusResponse.MarshalPB\<close> on a cluster status whose
  map \<^verbatim>\<open>NodesUp\<close> holds a nil pointer for node 1 does not return nil, it panics.
\<close>

theorem conversions_nil_entry_counterexample:
  "fst (StatusResponse_MarshalPB_ptrs Some
          (Some \<lparr>ptrs_NodesUp = [(1, None)], ptrs_NodesDown = []\<rparr>)
          (Some \<lparr>pb_ptrs_NodesUp = [], pb_ptrs_NodesDown = []\<rparr>)) = Panics"
  by (simp add: StatusResponse_MarshalPB_ptrs_def call_method_def)

section \<open>The up time of a node\<close>

text \<open>
  Neither conversion of a node status touches \<^verbatim>\<open>UpTime\<close>: the message that
  \<^verbatim>\<open>MarshalPB\<close> writes does not depend on it, and \<^verbatim>\<open>UnmarshalPB\<close> leaves the up
  time of the value it fills as it was.
\<close>

theorem UpTime_not_converted:
  "NodeStatusResponse_MarshalPB Duration (s\<lparr>UpTime := u\<rparr>) v
     = NodeStatusResponse_MarshalPB Duration s v
   \<and> UpTime (snd (NodeStatusResponse_UnmarshalPB AsDuration v s)) = UpTime s"
  by (simp add: NodeStatusResponse_MarshalPB_def NodeStatusResponse_UnmarshalPB_def)

section \<open>Wire messages survive the way through the Go types\<close>

text \<open>
  For the three key operation responses the other direction loses nothing: a
  wire message converted with \<^verbatim>\<open>UnmarshalPB\<close> and back with \<^verbatim>\<open>MarshalPB\<close> is the
  same wire message, whatever the values written to held before. In particular
  the ciphertext and plaintext bytes and the key version of a response reach
  the caller as the wire message has them.
\<close>

theorem wire_roundtrip:
  "snd (EncryptResponse_MarshalPB (snd (EncryptResponse_UnmarshalPB ev er)) ev') = ev
   \<and> snd (DecryptResponse_MarshalPB (snd (DecryptResponse_UnmarshalPB dv dr)) dv') = dv
   \<and> snd (GenerateKeyResponse_MarshalPB (snd (GenerateKeyResponse_UnmarshalPB gv gr)) gv') = gv"
  by (cases ev, cases dv, cases gv, cases ev', cases dv', cases gv')
     (simp add: EncryptResponse_MarshalPB_def EncryptResponse_UnmarshalPB_def
       DecryptResponse_MarshalPB_def DecryptResponse_UnmarshalPB_def
       GenerateKeyResponse_MarshalPB_def GenerateKeyResponse_UnmarshalPB_def up_down)

end
